theory Spec2Isabelle
  imports Main
begin

section \<open>Data model\<close>

text \<open>
  The entity of \<^verbatim>\<open>users/entities/user.entity.ts\<close>. The string enum
  \<^verbatim>\<open>AuthProvider\<close> is a datatype; the column is an enum column, and
  \<^verbatim>\<open>validateOAuthUser\<close> casts its \<^verbatim>\<open>provider\<close> to it, so a provider is one of
  the four members (all of them non-empty strings, hence truthy).
\<close>

datatype AuthProvider = LOCAL | GOOGLE | FACEBOOK | TWITTER

text \<open>
  The class \<^verbatim>\<open>User\<close> is a record, built in three layers so that the two projections
  the services take are record truncations:
  \<^item> \<open>UserSelected\<close>: the seven columns named by the \<^verbatim>\<open>select\<close> of
    \<^verbatim>\<open>findById\<close>;
  \<^item> \<open>UserWithoutPassword\<close>: every column but \<^verbatim>\<open>password\<close>, what the rest pattern
    \<^verbatim>\<open>const { password, ...userWithoutPassword } = user\<close> binds;
  \<^item> \<open>User\<close>: the whole row.
  The field \<^verbatim>\<open>id\<close> is named \<open>uid\<close> (\<open>id\<close> is the identity function of HOL).
  Nullable columns are options (\<open>None\<close> is \<^verbatim>\<open>null\<close>), dates are natural numbers
  (a timestamp).
\<close>

record UserSelected =
  uid :: string
  email :: string
  name :: string
  profilePicture :: "string option"
  authProvider :: AuthProvider
  isActive :: bool
  createdAt :: nat

record UserWithoutPassword = UserSelected +
  providerId :: "string option"
  emailVerified :: bool
  emailVerificationToken :: "string option"
  resetPasswordToken :: "string option"
  resetPasswordExpires :: "nat option"
  updatedAt :: nat
  lastLogin :: "nat option"

record User = UserWithoutPassword +
  password :: "string option"

text \<open>The exceptions the two services throw, with their messages.\<close>

datatype HttpException =
    UnauthorizedException string
  | ConflictException string
  | NotFoundException string

text \<open>\<^verbatim>\<open>users/dto/create-user.dto.ts\<close>; an optional property is an option.\<close>

record CreateUserDto =
  dto_email :: string
  dto_password :: "string option"
  dto_name :: string
  dto_profilePicture :: "string option"
  dto_authProvider :: "AuthProvider option"
  dto_providerId :: "string option"

text \<open>The interface \<^verbatim>\<open>OAuthUserData\<close> of the authentication service.\<close>

record OAuthUserData =
  oa_email :: string
  oa_name :: string
  oa_profilePicture :: "string option"
  oa_provider :: AuthProvider
  oa_providerId :: string

text \<open>
  Modelled from the spec: the declaration of \<^verbatim>\<open>RegisterDto\<close>
  (\<^verbatim>\<open>auth/dto/register.dto.ts\<close>) is missing; the registration payload is
  \<^verbatim>\<open>{email, password, name, profilePicture?}\<close>.
\<close>

record RegisterDto =
  reg_email :: string
  reg_password :: string
  reg_name :: string
  reg_profilePicture :: "string option"

text \<open>
  The declaration of \<^verbatim>\<open>UpdateUserDto\<close> (\<^verbatim>\<open>users/dto/update-user.dto.ts\<close>) is
  not among the sources. \<^verbatim>\<open>Object.assign\<close> copies whatever properties its argument
  has, so the dto is taken in full generality: any subset of the columns a client may
  write, which are all but the generated \<^verbatim>\<open>id\<close> and the two timestamps the table
  manages. \<open>None\<close> is a property the dto does not have; a property it has carries a
  value of the column's type (\<open>Some None\<close> is a property that is \<^verbatim>\<open>null\<close>).
\<close>

record UpdateUserDto =
  upd_email :: "string option"
  upd_password :: "string option option"
  upd_name :: "string option"
  upd_profilePicture :: "string option option"
  upd_authProvider :: "AuthProvider option"
  upd_providerId :: "string option option"
  upd_isActive :: "bool option"
  upd_emailVerified :: "bool option"
  upd_emailVerificationToken :: "string option option"
  upd_resetPasswordToken :: "string option option"
  upd_resetPasswordExpires :: "nat option option"
  upd_lastLogin :: "nat option option"



text \<open>The payload handed to \<^verbatim>\<open>jwtService.sign\<close>: \<^verbatim>\<open>{ email, sub }\<close>.\<close>

record JwtPayload =
  jwt_email :: string
  sub :: string

text \<open>The value \<^verbatim>\<open>{ user, access_token }\<close> returned by register and login.\<close>

record AuthResult =
  user :: UserWithoutPassword
  access_token :: string

section \<open>The users service\<close>

text \<open>
  The table is the list of its rows, in insertion order. \<^verbatim>\<open>findOne\<close> is the first
  row that satisfies the \<^verbatim>\<open>where\<close> clause. Of the constraints of the table the unique
  email column is modelled, where a service can run into it (\<^verbatim>\<open>update\<close>;
  \<^verbatim>\<open>create\<close> inserts only after it has found the email free). Where a
  service writes to the table it returns its outcome and the table afterwards. \<open>now\<close>
  is the clock (\<^verbatim>\<open>new Date()\<close> and the timestamps the table generates), \<open>uuid\<close> the
  primary key the table generates for an inserted row.
\<close>

definition findByEmail :: "User list \<Rightarrow> string \<Rightarrow> User option" where
  "findByEmail rows e = find (\<lambda>u. email u = e) rows"

definition findByProviderData :: "User list \<Rightarrow> AuthProvider \<Rightarrow> string \<Rightarrow> User option" where
  "findByProviderData rows provider pid =
     find (\<lambda>u. authProvider u = provider \<and> providerId u = Some pid) rows"

definition findById :: "User list \<Rightarrow> string \<Rightarrow> HttpException + UserSelected" where
  "findById rows i =
     (case find (\<lambda>u. uid u = i) rows of
        None \<Rightarrow> Inl (NotFoundException ''User not found'')
      | Some u \<Rightarrow> Inr (UserSelected.truncate u))"

definition updateLastLogin :: "nat \<Rightarrow> User list \<Rightarrow> string \<Rightarrow> User list" where
  \<comment> \<open>\<^verbatim>\<open>userRepository.update(id, { lastLogin: new Date() })\<close>; the
      \<^verbatim>\<open>@UpdateDateColumn\<close> follows every update of a row.\<close>
  "updateLastLogin now rows i =
     map (\<lambda>u. if uid u = i then u\<lparr>lastLogin := Some now, updatedAt := now\<rparr> else u) rows"

text \<open>
  \<^verbatim>\<open>validatePassword\<close> is \<^verbatim>\<open>bcrypt.compare\<close>, a parameter of the model.
\<close>

definition validatePassword :: "(string \<Rightarrow> string \<Rightarrow> bool) \<Rightarrow> string \<Rightarrow> string \<Rightarrow> bool" where
  "validatePassword bcrypt_compare plainPassword hashedPassword =
     bcrypt_compare plainPassword hashedPassword"

definition hashPassword :: "(string \<Rightarrow> nat \<Rightarrow> string) \<Rightarrow> string \<Rightarrow> string" where
  \<comment> \<open>\<^verbatim>\<open>bcrypt.hash(password, saltRounds)\<close> with \<^verbatim>\<open>saltRounds = 12\<close>;
      \<^verbatim>\<open>bcrypt.hash\<close> is a parameter.\<close>
  "hashPassword bcrypt_hash pw = bcrypt_hash pw 12"

text \<open>
  JavaScript truthiness of an optional string, as in \<^verbatim>\<open>!user.password\<close> and
  \<^verbatim>\<open>if (createUserDto.password)\<close>: \<^verbatim>\<open>null\<close>, \<^verbatim>\<open>undefined\<close> and the empty string
  are falsy.
\<close>

definition falsy :: "string option \<Rightarrow> bool" where
  "falsy p = (case p of None \<Rightarrow> True | Some h \<Rightarrow> h = [])"

definition create ::
  "(string \<Rightarrow> nat \<Rightarrow> string) \<Rightarrow> nat \<Rightarrow> string \<Rightarrow> User list \<Rightarrow> CreateUserDto
     \<Rightarrow> (HttpException + User) \<times> User list" where
  \<comment> \<open>\<^verbatim>\<open>userRepository.save\<close> of a new entity inserts the row; the columns the
      service leaves unset take the defaults the entity declares.\<close>
  "create bcrypt_hash now uuid rows dto =
     (case findByEmail rows (dto_email dto) of
        Some existingUser \<Rightarrow>
          (Inl (ConflictException ''User with this email already exists''), rows)
      | None \<Rightarrow>
          let u = \<lparr> uid = uuid,
                    email = dto_email dto,
                    name = dto_name dto,
                    profilePicture = dto_profilePicture dto,
                    authProvider =
                      (case dto_authProvider dto of Some p \<Rightarrow> p | None \<Rightarrow> LOCAL),
                    isActive = True,
                    createdAt = now,
                    providerId = dto_providerId dto,
                    emailVerified = False,
                    emailVerificationToken = None,
                    resetPasswordToken = None,
                    resetPasswordExpires = None,
                    updatedAt = now,
                    lastLogin = None,
                    password =
                      (if falsy (dto_password dto) then None
                       else Some (hashPassword bcrypt_hash (the (dto_password dto)))) \<rparr>
          in (Inr u, rows @ [u]))"





section \<open>The authentication service\<close>

text \<open>The rest pattern \<^verbatim>\<open>{ password, ...rest }\<close>: every property but the password.\<close>

definition omit_password :: "User \<Rightarrow> UserWithoutPassword" where
  "omit_password u = UserWithoutPassword.truncate u"

text \<open>
  \<^verbatim>\<open>validateUser\<close> reads the table only. It returns \<^verbatim>\<open>null\<close> (\<open>Inr None\<close>),
  throws (\<open>Inl\<close>), or returns the user without the password.
\<close>

definition validateUser ::
  "(string \<Rightarrow> string \<Rightarrow> bool) \<Rightarrow> User list \<Rightarrow> string \<Rightarrow> string
     \<Rightarrow> HttpException + UserWithoutPassword option" where
  "validateUser bcrypt_compare rows e pw =
     (case findByEmail rows e of
        None \<Rightarrow> Inr None
      | Some u \<Rightarrow>
          if falsy (password u) then Inr None
          else if \<not> validatePassword bcrypt_compare pw (the (password u)) then Inr None
          else if \<not> isActive u then Inl (UnauthorizedException ''Account is deactivated'')
          else Inr (Some (omit_password u)))"

definition validateOAuthUser ::
  "(string \<Rightarrow> nat \<Rightarrow> string) \<Rightarrow> nat \<Rightarrow> string \<Rightarrow> User list \<Rightarrow> OAuthUserData
     \<Rightarrow> (HttpException + User) \<times> User list" where
  "validateOAuthUser bcrypt_hash now uuid rows userData =
     (case findByProviderData rows (oa_provider userData) (oa_providerId userData) of
        Some u \<Rightarrow> (Inr u, updateLastLogin now rows (uid u))
      | None \<Rightarrow>
          (case findByEmail rows (oa_email userData) of
             Some u \<Rightarrow>
               (Inl (ConflictException
                  ''An account with this email already exists. Please sign in with your password.''),
                rows)
           | None \<Rightarrow>
               create bcrypt_hash now uuid rows
                 \<lparr> dto_email = oa_email userData,
                   dto_password = None,
                   dto_name = oa_name userData,
                   dto_profilePicture = oa_profilePicture userData,
                   dto_authProvider = Some (oa_provider userData),
                   dto_providerId = Some (oa_providerId userData) \<rparr>))"

definition register ::
  "(string \<Rightarrow> nat \<Rightarrow> string) \<Rightarrow> (JwtPayload \<Rightarrow> string) \<Rightarrow> nat \<Rightarrow> string \<Rightarrow> User list
     \<Rightarrow> RegisterDto \<Rightarrow> (HttpException + AuthResult) \<times> User list" where
  "register bcrypt_hash jwt_sign now uuid rows registerDto =
     (case create bcrypt_hash now uuid rows
             \<lparr> dto_email = reg_email registerDto,
               dto_password = Some (reg_password registerDto),
               dto_name = reg_name registerDto,
               dto_profilePicture = reg_profilePicture registerDto,
               dto_authProvider = None,
               dto_providerId = None \<rparr> of
        (Inl e, rows') \<Rightarrow> (Inl e, rows')
      | (Inr u, rows') \<Rightarrow>
          (Inr \<lparr> user = omit_password u,
                 access_token = jwt_sign \<lparr> jwt_email = email u, sub = uid u \<rparr> \<rparr>,
           rows'))"

definition login ::
  "(JwtPayload \<Rightarrow> string) \<Rightarrow> nat \<Rightarrow> User list \<Rightarrow> User \<Rightarrow> AuthResult \<times> User list" where
  "login jwt_sign now rows u =
     (\<lparr> user = omit_password u,
        access_token = jwt_sign \<lparr> jwt_email = email u, sub = uid u \<rparr> \<rparr>,
      updateLastLogin now rows (uid u))"

definition getProfile :: "User list \<Rightarrow> string \<Rightarrow> HttpException + UserSelected" where
  "getProfile rows userId = findById rows userId"

section \<open>The password-hash invariant\<close>

text \<open>
  A row has a password hash only if its id is among those produced by local
  registration (\<open>registered\<close>).
\<close>

definition hash_only_if_local :: "string set \<Rightarrow> User list \<Rightarrow> bool" where
  "hash_only_if_local registered rows =
     (\<forall>u\<in>set rows. password u \<noteq> None \<longrightarrow> uid u \<in> registered)"

section \<open>Sample rows and library stand-ins\<close>

text \<open>
  Concrete rows and concrete stand-ins for the bcrypt and JWT libraries, on which the
  theorems below are instantiated.
\<close>

definition demo_hash :: "string \<Rightarrow> nat \<Rightarrow> string" where
  "demo_hash pw rounds = CHR ''#'' # pw"

definition demo_compare :: "string \<Rightarrow> string \<Rightarrow> bool" where
  "demo_compare pw h = (h = CHR ''#'' # pw)"

definition demo_sign :: "JwtPayload \<Rightarrow> string" where
  "demo_sign p = sub p @ ''.'' @ jwt_email p"

definition alice :: User where
  "alice = \<lparr> uid = ''u1'', email = ''alice@x.com'', name = ''Alice'', profilePicture = None,
     authProvider = LOCAL, isActive = True, createdAt = 1, providerId = None,
     emailVerified = False, emailVerificationToken = None, resetPasswordToken = None,
     resetPasswordExpires = None, updatedAt = 1, lastLogin = None,
     password = Some ''#secret-pw'' \<rparr>"

definition bob :: User where
  "bob = \<lparr> uid = ''u2'', email = ''bob@x.com'', name = ''Bob'', profilePicture = None,
     authProvider = GOOGLE, isActive = True, createdAt = 2, providerId = Some ''g-1'',
     emailVerified = False, emailVerificationToken = None, resetPasswordToken = None,
     resetPasswordExpires = None, updatedAt = 2, lastLogin = None,
     password = None \<rparr>"

definition carol :: User where
  "carol = \<lparr> uid = ''u3'', email = ''carol@x.com'', name = ''Carol'', profilePicture = None,
     authProvider = LOCAL, isActive = False, createdAt = 3, providerId = None,
     emailVerified = False, emailVerificationToken = None,
     resetPasswordToken = None, resetPasswordExpires = None,
     updatedAt = 3, lastLogin = None,
     password = Some ''#carol-pw'' \<rparr>"

definition erin :: User where
  "erin = \<lparr> uid = ''u4'', email = ''erin@x.com'', name = ''Erin'', profilePicture = None,
     authProvider = LOCAL, isActive = True, createdAt = 4, providerId = None,
     emailVerified = False, emailVerificationToken = Some ''verify-me'',
     resetPasswordToken = Some ''reset-me'', resetPasswordExpires = Some 99,
     updatedAt = 4, lastLogin = None,
     password = Some ''#erin-pw'' \<rparr>"

text \<open>
  Three OAuth identities: one already linked to \<open>bob\<close> that carries the email of
  \<open>alice\<close>, one unknown that carries the email of \<open>alice\<close>, one wholly new.
\<close>

definition returning :: OAuthUserData where
  "returning = \<lparr> oa_email = ''alice@x.com'', oa_name = ''Bob'', oa_profilePicture = None,
                  oa_provider = GOOGLE, oa_providerId = ''g-1'' \<rparr>"

definition colliding :: OAuthUserData where
  "colliding = \<lparr> oa_email = ''alice@x.com'', oa_name = ''Al'', oa_profilePicture = None,
                  oa_provider = GOOGLE, oa_providerId = ''g-2'' \<rparr>"

definition newcomer :: OAuthUserData where
  "newcomer = \<lparr> oa_email = ''dan@x.com'', oa_name = ''Dan'', oa_profilePicture = None,
                 oa_provider = GOOGLE, oa_providerId = ''g-3'' \<rparr>"

text \<open>A registration payload.\<close>

definition signup :: RegisterDto where
  "signup = \<lparr> reg_email = ''a@x.com'', reg_password = ''longenough1'', reg_name = ''A'',
               reg_profilePicture = None \<rparr>"

text \<open>
  Two profile updates: one carries a password and a name, the other the email of
  \<open>alice\<close>.
\<close>

definition new_password :: UpdateUserDto where
  "new_password = \<lparr> upd_email = None, upd_password = Some (Some ''plain-text''),
                     upd_name = Some ''Bobby'', upd_profilePicture = None,
                     upd_authProvider = None, upd_providerId = None,
                     upd_isActive = None, upd_emailVerified = None,
                     upd_emailVerificationToken = None, upd_resetPasswordToken = None,
                     upd_resetPasswordExpires = None, upd_lastLogin = None \<rparr>"

definition taken_email :: UpdateUserDto where
  "taken_email = \<lparr> upd_email = Some ''alice@x.com'', upd_password = None,
                    upd_name = Some ''Bobby'', upd_profilePicture = None,
                    upd_authProvider = None, upd_providerId = None,
                    upd_isActive = None, upd_emailVerified = None,
                    upd_emailVerificationToken = None, upd_resetPasswordToken = None,
                    upd_resetPasswordExpires = None, upd_lastLogin = None \<rparr>"


lemmas fixtures = alice_def bob_def carol_def erin_def demo_hash_def demo_compare_def demo_sign_def
  returning_def colliding_def newcomer_def signup_def new_password_def taken_email_def

section \<open>Facts about the repository and the services\<close>

lemma find_append:
  "find P (xs @ ys) = (case find P xs of None \<Rightarrow> find P ys | Some x \<Rightarrow> Some x)"
  by (induction xs) auto

lemma hash_only_if_local_updateLastLogin:
  "hash_only_if_local L rows \<Longrightarrow> hash_only_if_local L (updateLastLogin now rows i)"
  by (auto simp: hash_only_if_local_def updateLastLogin_def)

lemma hash_only_if_local_snoc:
  "hash_only_if_local L rows \<Longrightarrow> password u = None \<or> uid u \<in> L \<Longrightarrow>
     hash_only_if_local L (rows @ [u])"
  by (auto simp: hash_only_if_local_def)

lemma hash_only_if_local_mono:
  "hash_only_if_local L rows \<Longrightarrow> L \<subseteq> L' \<Longrightarrow> hash_only_if_local L' rows"
  by (auto simp: hash_only_if_local_def)

lemma create_new:
  assumes "findByEmail rows (dto_email dto) = None"
  shows "\<exists>u. create bh now uuid rows dto = (Inr u, rows @ [u])
           \<and> uid u = uuid \<and> email u = dto_email dto \<and> name u = dto_name dto
           \<and> profilePicture u = dto_profilePicture dto
           \<and> isActive u \<and> lastLogin u = None
           \<and> emailVerificationToken u = None \<and> resetPasswordToken u = None
           \<and> resetPasswordExpires u = None
           \<and> authProvider u = (case dto_authProvider dto of Some p \<Rightarrow> p | None \<Rightarrow> LOCAL)
           \<and> providerId u = dto_providerId dto
           \<and> password u = (if falsy (dto_password dto) then None
                            else Some (hashPassword bh (the (dto_password dto))))"
  using assms by (simp add: create_def Let_def)

lemma create_conflict:
  assumes "findByEmail rows (dto_email dto) = Some v"
  shows "create bh now uuid rows dto
           = (Inl (ConflictException ''User with this email already exists''), rows)"
  using assms by (simp add: create_def)

lemma validateOAuthUser_linked:
  assumes "findByProviderData rows (oa_provider d) (oa_providerId d) = Some u"
  shows "validateOAuthUser bh now uuid rows d = (Inr u, updateLastLogin now rows (uid u))"
  using assms by (simp add: validateOAuthUser_def)

lemma validateOAuthUser_collision:
  assumes "findByProviderData rows (oa_provider d) (oa_providerId d) = None"
    and "findByEmail rows (oa_email d) = Some v"
  shows "validateOAuthUser bh now uuid rows d
           = (Inl (ConflictException
                ''An account with this email already exists. Please sign in with your password.''),
              rows)"
  using assms by (simp add: validateOAuthUser_def)

lemma validateOAuthUser_new:
  assumes "findByProviderData rows (oa_provider d) (oa_providerId d) = None"
    and "findByEmail rows (oa_email d) = None"
  shows "\<exists>u. validateOAuthUser bh now uuid rows d = (Inr u, rows @ [u])
            \<and> uid u = uuid \<and> email u = oa_email d \<and> name u = oa_name d
            \<and> profilePicture u = oa_profilePicture d
            \<and> authProvider u = oa_provider d
            \<and> providerId u = Some (oa_providerId d)
            \<and> password u = None \<and> isActive u \<and> lastLogin u = None"
proof -
  let ?dto = "\<lparr> dto_email = oa_email d, dto_password = None, dto_name = oa_name d,
                 dto_profilePicture = oa_profilePicture d,
                 dto_authProvider = Some (oa_provider d),
                 dto_providerId = Some (oa_providerId d) \<rparr>"
  have "findByEmail rows (dto_email ?dto) = None" using assms(2) by simp
  from create_new [OF this, of bh now uuid]
  obtain u where "create bh now uuid rows ?dto = (Inr u, rows @ [u])"
    and "uid u = uuid" "email u = oa_email d" "name u = oa_name d"
        "profilePicture u = oa_profilePicture d" "authProvider u = oa_provider d"
        "providerId u = Some (oa_providerId d)" "password u = None" "isActive u"
        "lastLogin u = None"
    by (auto simp: falsy_def)
  moreover have "validateOAuthUser bh now uuid rows d = create bh now uuid rows ?dto"
    using assms by (simp add: validateOAuthUser_def)
  ultimately show ?thesis by simp
qed

lemma register_new:
  assumes "findByEmail rows (reg_email rd) = None"
  shows "\<exists>u. register bh sg now uuid rows rd
               = (Inr \<lparr> user = omit_password u,
                        access_token = sg \<lparr> jwt_email = email u, sub = uid u \<rparr> \<rparr>,
                  rows @ [u])
           \<and> uid u = uuid \<and> email u = reg_email rd \<and> name u = reg_name rd
           \<and> authProvider u = LOCAL \<and> providerId u = None \<and> isActive u
           \<and> emailVerificationToken u = None \<and> resetPasswordToken u = None
           \<and> resetPasswordExpires u = None
           \<and> password u = (if reg_password rd = [] then None
                            else Some (hashPassword bh (reg_password rd)))"
proof -
  let ?dto = "\<lparr> dto_email = reg_email rd, dto_password = Some (reg_password rd),
                 dto_name = reg_name rd, dto_profilePicture = reg_profilePicture rd,
                 dto_authProvider = None, dto_providerId = None \<rparr>"
  have "findByEmail rows (dto_email ?dto) = None" using assms by simp
  from create_new [OF this, of bh now uuid]
  obtain u where c: "create bh now uuid rows ?dto = (Inr u, rows @ [u])"
    and f: "uid u = uuid" "email u = reg_email rd" "name u = reg_name rd"
        "authProvider u = LOCAL" "providerId u = None" "isActive u"
        "emailVerificationToken u = None" "resetPasswordToken u = None"
        "resetPasswordExpires u = None"
        "password u = (if reg_password rd = [] then None
                            else Some (hashPassword bh (reg_password rd)))"
    by (auto simp: falsy_def)
  have "register bh sg now uuid rows rd
               = (Inr \<lparr> user = omit_password u,
                        access_token = sg \<lparr> jwt_email = email u, sub = uid u \<rparr> \<rparr>,
                  rows @ [u])"
    unfolding register_def c by simp
  with f show ?thesis by blast
qed

lemma register_conflict:
  assumes "findByEmail rows (reg_email rd) = Some v"
  shows "register bh sg now uuid rows rd
           = (Inl (ConflictException ''User with this email already exists''), rows)"
proof -
  let ?dto = "\<lparr> dto_email = reg_email rd, dto_password = Some (reg_password rd),
                 dto_name = reg_name rd, dto_profilePicture = reg_profilePicture rd,
                 dto_authProvider = None, dto_providerId = None \<rparr>"
  have "findByEmail rows (dto_email ?dto) = Some v" using assms by simp
  from create_conflict [OF this, of bh now uuid]
  show ?thesis unfolding register_def by simp
qed

lemma find_Some_mem: "find P xs = Some x \<Longrightarrow> x \<in> set xs \<and> P x"
  by (induction xs) (auto split: if_splits)

lemma updateLastLogin_refreshes:
  "u \<in> set rows \<Longrightarrow>
     u\<lparr>lastLogin := Some now, updatedAt := now\<rparr> \<in> set (updateLastLogin now rows (uid u))"
proof -
  assume "u \<in> set rows"
  then have "(\<lambda>r. if uid r = uid u then r\<lparr>lastLogin := Some now, updatedAt := now\<rparr> else r) u
               \<in> (\<lambda>r. if uid r = uid u then r\<lparr>lastLogin := Some now, updatedAt := now\<rparr> else r)
                    ` set rows"
    by (rule imageI)
  then show ?thesis by (simp add: updateLastLogin_def)
qed

lemma findByEmail_snoc_hit:
  "email u = e \<Longrightarrow> findByEmail (rows @ [u]) e \<noteq> None"
  by (simp add: findByEmail_def find_append split: option.splits)

lemma omit_password_ignores_password:
  "omit_password (u\<lparr>password := p\<rparr>) = omit_password u"
  by (simp add: omit_password_def UserWithoutPassword.truncate_def)

lemma omit_password_fields:
  "uid (omit_password u) = uid u" "email (omit_password u) = email u"
  "emailVerificationToken (omit_password u) = emailVerificationToken u"
  "resetPasswordToken (omit_password u) = resetPasswordToken u"
  "resetPasswordExpires (omit_password u) = resetPasswordExpires u"
  by (simp_all add: omit_password_def UserWithoutPassword.truncate_def)

lemma register_ignores_hasher:
  "fst (register bh' sg now uuid rows rd) = fst (register bh sg now uuid rows rd)"
proof (cases "findByEmail rows (reg_email rd)")
  case (Some v)
  then show ?thesis by (simp add: register_conflict)
next
  case None
  then show ?thesis
    by (simp add: register_def create_def Let_def omit_password_def
          UserWithoutPassword.truncate_def)
qed

lemma find_map_same_key:
  assumes "\<And>r. P (f r) = P r"
  shows "find P (map f xs) = map_option f (find P xs)"
  by (induction xs) (simp_all add: assms)





section \<open>Local credential validation\<close>

text \<open>
  Claim C1. Validating (email, password) returns the same value, \<^verbatim>\<open>null\<close>, in each of
  the three cases: no user has that email; the user found has no stored password hash;
  the password does not verify against the stored hash. The three cases cannot be told
  apart from the value returned.
\<close>

theorem validateUser_unified_failure:
  assumes "findByEmail rows e = None
         \<or> (\<exists>u. findByEmail rows e = Some u \<and> password u = None)
         \<or> (\<exists>u h. findByEmail rows e = Some u \<and> password u = Some h
               \<and> \<not> validatePassword bcrypt_compare pw h)"
  shows "validateUser bcrypt_compare rows e pw = Inr None"
  using assms by (auto simp: validateUser_def falsy_def)

theorem validateUser_unified_failure_witness:
  "findByEmail [alice, bob] ''nobody@x.com'' = None
   \<and> validateUser demo_compare [alice, bob] ''nobody@x.com'' ''secret-pw'' = Inr None
   \<and> findByEmail [alice, bob] ''bob@x.com'' = Some bob \<and> password bob = None
   \<and> validateUser demo_compare [alice, bob] ''bob@x.com'' ''secret-pw'' = Inr None
   \<and> findByEmail [alice, bob] ''alice@x.com'' = Some alice
   \<and> password alice = Some ''#secret-pw''
   \<and> \<not> validatePassword demo_compare ''wrong-pw'' ''#secret-pw''
   \<and> validateUser demo_compare [alice, bob] ''alice@x.com'' ''wrong-pw'' = Inr None"
  using validateUser_unified_failure [of "[alice, bob]" "''nobody@x.com''" demo_compare "''secret-pw''"]
        validateUser_unified_failure [of "[alice, bob]" "''bob@x.com''" demo_compare "''secret-pw''"]
        validateUser_unified_failure [of "[alice, bob]" "''alice@x.com''" demo_compare "''wrong-pw''"]
  by (simp add: findByEmail_def validatePassword_def fixtures)

text \<open>
  Claim C4. When the stored hash verifies and \<^verbatim>\<open>isActive\<close> is false, validation
  throws "Account is deactivated", which differs from the \<^verbatim>\<open>null\<close> of invalid
  credentials. The flag is read only after the password has verified: a deactivated
  account with a wrong password gives \<^verbatim>\<open>null\<close>. (A stored hash is a non-empty string:
  JavaScript reads the empty string as no hash at all.)
\<close>

theorem validateUser_deactivated:
  assumes "findByEmail rows e = Some u" and "password u = Some h" and "h \<noteq> []"
    and "\<not> isActive u"
  shows "(validatePassword bcrypt_compare pw h \<longrightarrow>
            validateUser bcrypt_compare rows e pw
              = Inl (UnauthorizedException ''Account is deactivated''))
       \<and> (\<not> validatePassword bcrypt_compare pw h \<longrightarrow>
            validateUser bcrypt_compare rows e pw = Inr None)
       \<and> validateUser bcrypt_compare rows e pw
            \<in> {Inl (UnauthorizedException ''Account is deactivated''), Inr None}
       \<and> Inl (UnauthorizedException ''Account is deactivated'')
            \<noteq> (Inr None :: HttpException + UserWithoutPassword option)"
  using assms by (simp add: validateUser_def falsy_def)

theorem validateUser_deactivated_witness:
  "findByEmail [alice, carol] ''carol@x.com'' = Some carol
   \<and> password carol = Some ''#carol-pw'' \<and> \<not> isActive carol
   \<and> validatePassword demo_compare ''carol-pw'' ''#carol-pw''
   \<and> validateUser demo_compare [alice, carol] ''carol@x.com'' ''carol-pw''
        = Inl (UnauthorizedException ''Account is deactivated'')
   \<and> \<not> validatePassword demo_compare ''guess'' ''#carol-pw''
   \<and> validateUser demo_compare [alice, carol] ''carol@x.com'' ''guess'' = Inr None"
  using validateUser_deactivated [of "[alice, carol]" "''carol@x.com''" carol "''#carol-pw''" demo_compare "''carol-pw''"]
        validateUser_deactivated [of "[alice, carol]" "''carol@x.com''" carol "''#carol-pw''" demo_compare "''guess''"]
  by (simp add: findByEmail_def validatePassword_def fixtures)

section \<open>OAuth identity resolution\<close>

text \<open>
  Claim C2. Resolution takes three steps, in this order. (1) When the pair
  (provider, providerId) matches a row, that row's \<^verbatim>\<open>lastLogin\<close> is refreshed and the
  user is returned, whatever the email of the input is: a linked identity never reaches
  the email test. (2) Otherwise, when a row has the email of the input, the call fails
  with a conflict, the table as it was. (3) Otherwise a new row is inserted and returned.
\<close>

theorem validateOAuthUser_three_steps:
  "(\<forall>u. findByProviderData rows (oa_provider d) (oa_providerId d) = Some u \<longrightarrow>
       (\<forall>e. validateOAuthUser bcrypt_hash now uuid rows (d\<lparr>oa_email := e\<rparr>)
              = (Inr u, updateLastLogin now rows (uid u)))
       \<and> u\<lparr>lastLogin := Some now, updatedAt := now\<rparr>
            \<in> set (updateLastLogin now rows (uid u))
       \<and> length (updateLastLogin now rows (uid u)) = length rows)
 \<and> (\<forall>v. findByProviderData rows (oa_provider d) (oa_providerId d) = None
         \<and> findByEmail rows (oa_email d) = Some v \<longrightarrow>
       validateOAuthUser bcrypt_hash now uuid rows d
         = (Inl (ConflictException
              ''An account with this email already exists. Please sign in with your password.''),
            rows))
 \<and> (findByProviderData rows (oa_provider d) (oa_providerId d) = None
       \<and> findByEmail rows (oa_email d) = None \<longrightarrow>
       (\<exists>u. validateOAuthUser bcrypt_hash now uuid rows d = (Inr u, rows @ [u])
            \<and> uid u = uuid \<and> email u = oa_email d \<and> name u = oa_name d
            \<and> profilePicture u = oa_profilePicture d
            \<and> authProvider u = oa_provider d
            \<and> providerId u = Some (oa_providerId d)))"
proof (intro conjI allI impI)
  fix u e
  assume "findByProviderData rows (oa_provider d) (oa_providerId d) = Some u"
  then show "validateOAuthUser bcrypt_hash now uuid rows (d\<lparr>oa_email := e\<rparr>)
              = (Inr u, updateLastLogin now rows (uid u))"
    by (simp add: validateOAuthUser_linked)
next
  fix u
  assume "findByProviderData rows (oa_provider d) (oa_providerId d) = Some u"
  then have "u \<in> set rows"
    unfolding findByProviderData_def by (rule find_Some_mem [THEN conjunct1])
  then show "u\<lparr>lastLogin := Some now, updatedAt := now\<rparr>
               \<in> set (updateLastLogin now rows (uid u))"
    by (rule updateLastLogin_refreshes)
next
  fix u
  show "length (updateLastLogin now rows (uid u)) = length rows"
    by (simp add: updateLastLogin_def)
next
  fix v
  assume "findByProviderData rows (oa_provider d) (oa_providerId d) = None
            \<and> findByEmail rows (oa_email d) = Some v"
  then show "validateOAuthUser bcrypt_hash now uuid rows d
         = (Inl (ConflictException
              ''An account with this email already exists. Please sign in with your password.''),
            rows)"
    by (simp add: validateOAuthUser_collision)
next
  assume a: "findByProviderData rows (oa_provider d) (oa_providerId d) = None
       \<and> findByEmail rows (oa_email d) = None"
  then have a1: "findByProviderData rows (oa_provider d) (oa_providerId d) = None"
    and a2: "findByEmail rows (oa_email d) = None" by simp_all
  from validateOAuthUser_new [OF a1 a2, of bcrypt_hash now uuid]
  obtain u where "validateOAuthUser bcrypt_hash now uuid rows d = (Inr u, rows @ [u])
      \<and> uid u = uuid \<and> email u = oa_email d \<and> name u = oa_name d
      \<and> profilePicture u = oa_profilePicture d \<and> authProvider u = oa_provider d
      \<and> providerId u = Some (oa_providerId d)
      \<and> password u = None \<and> isActive u \<and> lastLogin u = None" ..
  then show "\<exists>u. validateOAuthUser bcrypt_hash now uuid rows d = (Inr u, rows @ [u])
            \<and> uid u = uuid \<and> email u = oa_email d \<and> name u = oa_name d
            \<and> profilePicture u = oa_profilePicture d
            \<and> authProvider u = oa_provider d
            \<and> providerId u = Some (oa_providerId d)"
    by (intro exI [of _ u]) simp
qed

theorem validateOAuthUser_three_steps_witness:
  "findByProviderData [alice, bob] GOOGLE ''g-1'' = Some bob
   \<and> findByEmail [alice, bob] ''alice@x.com'' = Some alice
   \<and> validateOAuthUser demo_hash 7 ''u9'' [alice, bob] returning
        = (Inr bob, [alice, bob\<lparr>lastLogin := Some 7, updatedAt := 7\<rparr>])
   \<and> findByProviderData [alice, bob] GOOGLE ''g-2'' = None
   \<and> validateOAuthUser demo_hash 7 ''u9'' [alice, bob] colliding
        = (Inl (ConflictException
             ''An account with this email already exists. Please sign in with your password.''),
           [alice, bob])
   \<and> findByProviderData [alice, bob] GOOGLE ''g-3'' = None
   \<and> findByEmail [alice, bob] ''dan@x.com'' = None
   \<and> length (snd (validateOAuthUser demo_hash 7 ''u9'' [alice, bob] newcomer)) = 3"
proof -
  have p1: "findByProviderData [alice, bob] GOOGLE ''g-1'' = Some bob"
    by (simp add: findByProviderData_def fixtures)
  have e1: "findByEmail [alice, bob] ''alice@x.com'' = Some alice"
    by (simp add: findByEmail_def fixtures)
  have p2: "findByProviderData [alice, bob] GOOGLE ''g-2'' = None"
    by (simp add: findByProviderData_def fixtures)
  have p3: "findByProviderData [alice, bob] GOOGLE ''g-3'' = None"
    by (simp add: findByProviderData_def fixtures)
  have e3: "findByEmail [alice, bob] ''dan@x.com'' = None"
    by (simp add: findByEmail_def fixtures)
  have upd: "updateLastLogin 7 [alice, bob] (uid bob)
               = [alice, bob\<lparr>lastLogin := Some 7, updatedAt := 7\<rparr>]"
    by (simp add: updateLastLogin_def fixtures)
  have r: "returning\<lparr>oa_email := ''alice@x.com''\<rparr> = returning"
    by (simp add: returning_def)
  have s1: "validateOAuthUser demo_hash 7 ''u9'' [alice, bob] returning
              = (Inr bob, [alice, bob\<lparr>lastLogin := Some 7, updatedAt := 7\<rparr>])"
    using validateOAuthUser_three_steps [of "[alice, bob]" returning demo_hash 7 "''u9''"]
      p1 upd r by (simp add: returning_def)
  have s2: "validateOAuthUser demo_hash 7 ''u9'' [alice, bob] colliding
        = (Inl (ConflictException
             ''An account with this email already exists. Please sign in with your password.''),
           [alice, bob])"
    using validateOAuthUser_three_steps [of "[alice, bob]" colliding demo_hash 7 "''u9''"]
      p2 e1 by (simp add: colliding_def)
  have s3: "length (snd (validateOAuthUser demo_hash 7 ''u9'' [alice, bob] newcomer)) = 3"
    using validateOAuthUser_three_steps [of "[alice, bob]" newcomer demo_hash 7 "''u9''"]
      p3 e3 by (auto simp: newcomer_def)
  from p1 e1 s1 p2 s2 p3 e3 s3 show ?thesis by simp
qed

text \<open>
  Claim C5. When the pair (provider, providerId) is unknown and the email belongs to a
  row, resolution fails with the conflict and the table after the call is the table
  before it: no row is created.
\<close>

theorem validateOAuthUser_conflict_keeps_table:
  assumes "findByProviderData rows (oa_provider d) (oa_providerId d) = None"
    and "findByEmail rows (oa_email d) = Some v"
  shows "fst (validateOAuthUser bcrypt_hash now uuid rows d)
           = Inl (ConflictException
               ''An account with this email already exists. Please sign in with your password.'')
       \<and> snd (validateOAuthUser bcrypt_hash now uuid rows d) = rows"
  using assms by (simp add: validateOAuthUser_collision)

theorem validateOAuthUser_conflict_keeps_table_witness:
  "findByProviderData [alice, bob] (oa_provider colliding) (oa_providerId colliding) = None
   \<and> findByEmail [alice, bob] (oa_email colliding) = Some alice
   \<and> snd (validateOAuthUser demo_hash 7 ''u9'' [alice, bob] colliding) = [alice, bob]"
proof -
  have p: "findByProviderData [alice, bob] (oa_provider colliding) (oa_providerId colliding)
             = None"
    by (simp add: findByProviderData_def fixtures)
  have e: "findByEmail [alice, bob] (oa_email colliding) = Some alice"
    by (simp add: findByEmail_def fixtures)
  from validateOAuthUser_conflict_keeps_table [OF p e, of demo_hash 7 "''u9''"] p e
  show ?thesis by simp
qed

section \<open>The password-hash invariant is kept\<close>

text \<open>
  Claim C6. A row has a password hash only if local registration created it. The
  operations of the authentication service that write to the table keep this: OAuth
  resolution and login keep it for the same set of registered ids, registration for the
  set extended by the id of the row it creates (\<^verbatim>\<open>validateUser\<close> and \<^verbatim>\<open>getProfile\<close>
  only read). The row created by a first OAuth sign-in has no password hash, is active,
  and has the provider and provider id of the input.
\<close>

theorem password_hash_only_if_local:
  assumes "hash_only_if_local L rows"
  shows "hash_only_if_local L (snd (validateOAuthUser bcrypt_hash now uuid rows d))
       \<and> hash_only_if_local L (snd (login jwt_sign now rows u))
       \<and> (case fst (register bcrypt_hash jwt_sign now uuid rows rd) of
            Inl e \<Rightarrow> snd (register bcrypt_hash jwt_sign now uuid rows rd) = rows
          | Inr r \<Rightarrow> hash_only_if_local (insert (uid (user r)) L)
                      (snd (register bcrypt_hash jwt_sign now uuid rows rd)))
       \<and> (findByProviderData rows (oa_provider d) (oa_providerId d) = None \<longrightarrow>
            (\<forall>n. fst (validateOAuthUser bcrypt_hash now uuid rows d) = Inr n \<longrightarrow>
               password n = None \<and> isActive n \<and> authProvider n = oa_provider d
               \<and> providerId n = Some (oa_providerId d)
               \<and> snd (validateOAuthUser bcrypt_hash now uuid rows d) = rows @ [n]))"
proof (intro conjI)
  show "hash_only_if_local L (snd (validateOAuthUser bcrypt_hash now uuid rows d))"
  proof (cases "findByProviderData rows (oa_provider d) (oa_providerId d)")
    case (Some v)
    then show ?thesis
      using assms by (simp add: validateOAuthUser_linked hash_only_if_local_updateLastLogin)
  next
    case None
    show ?thesis
    proof (cases "findByEmail rows (oa_email d)")
      case (Some w)
      with None show ?thesis using assms by (simp add: validateOAuthUser_collision)
    next
      case e: None
      from validateOAuthUser_new [OF None e, of bcrypt_hash now uuid]
      obtain n where "validateOAuthUser bcrypt_hash now uuid rows d = (Inr n, rows @ [n])"
        and "password n = None" by (elim exE conjE)
      then show ?thesis using assms by (simp add: hash_only_if_local_snoc)
    qed
  qed
  show "hash_only_if_local L (snd (login jwt_sign now rows u))"
    using assms by (simp add: login_def hash_only_if_local_updateLastLogin)
  show "case fst (register bcrypt_hash jwt_sign now uuid rows rd) of
            Inl e \<Rightarrow> snd (register bcrypt_hash jwt_sign now uuid rows rd) = rows
          | Inr r \<Rightarrow> hash_only_if_local (insert (uid (user r)) L)
                      (snd (register bcrypt_hash jwt_sign now uuid rows rd))"
  proof (cases "findByEmail rows (reg_email rd)")
    case None
    from register_new [OF None, of bcrypt_hash jwt_sign now uuid]
    obtain n where r: "register bcrypt_hash jwt_sign now uuid rows rd
               = (Inr \<lparr> user = omit_password n,
                        access_token = jwt_sign \<lparr> jwt_email = email n, sub = uid n \<rparr> \<rparr>,
                  rows @ [n])" by (elim exE conjE)
    have "uid (omit_password n) = uid n"
      by (simp add: omit_password_def UserWithoutPassword.truncate_def)
    moreover have "hash_only_if_local (insert (uid n) L) rows"
      using assms by (rule hash_only_if_local_mono) auto
    then have "hash_only_if_local (insert (uid n) L) (rows @ [n])"
      by (rule hash_only_if_local_snoc) simp
    ultimately show ?thesis by (simp add: r)
  next
    case (Some v)
    then show ?thesis by (simp add: register_conflict)
  qed
  show "findByProviderData rows (oa_provider d) (oa_providerId d) = None \<longrightarrow>
            (\<forall>n. fst (validateOAuthUser bcrypt_hash now uuid rows d) = Inr n \<longrightarrow>
               password n = None \<and> isActive n \<and> authProvider n = oa_provider d
               \<and> providerId n = Some (oa_providerId d)
               \<and> snd (validateOAuthUser bcrypt_hash now uuid rows d) = rows @ [n])"
  proof (intro impI allI)
    fix n
    assume p: "findByProviderData rows (oa_provider d) (oa_providerId d) = None"
      and ok: "fst (validateOAuthUser bcrypt_hash now uuid rows d) = Inr n"
    show "password n = None \<and> isActive n \<and> authProvider n = oa_provider d
               \<and> providerId n = Some (oa_providerId d)
               \<and> snd (validateOAuthUser bcrypt_hash now uuid rows d) = rows @ [n]"
    proof (cases "findByEmail rows (oa_email d)")
      case (Some w)
      from validateOAuthUser_collision [OF p Some, of bcrypt_hash now uuid] ok
      show ?thesis by simp
    next
      case None
      from validateOAuthUser_new [OF p None, of bcrypt_hash now uuid]
      obtain m where m: "validateOAuthUser bcrypt_hash now uuid rows d = (Inr m, rows @ [m])"
        and f: "password m = None" "isActive m" "authProvider m = oa_provider d"
          "providerId m = Some (oa_providerId d)" by (elim exE conjE)
      from m ok have "m = n" by simp
      with m f show ?thesis by simp
    qed
  qed
qed

theorem password_hash_only_if_local_witness:
  "hash_only_if_local {''u1'', ''u3''} [alice, bob, carol]
   \<and> hash_only_if_local {''u1'', ''u3''}
        (snd (validateOAuthUser demo_hash 7 ''u9'' [alice, bob, carol] newcomer))
   \<and> hash_only_if_local {''u1'', ''u3''} (snd (login demo_sign 7 [alice, bob, carol] bob))
   \<and> hash_only_if_local {''u8'', ''u1'', ''u3''}
        (snd (register demo_hash demo_sign 7 ''u8'' [alice, bob, carol] signup))
   \<and> findByProviderData [alice, bob, carol] (oa_provider newcomer) (oa_providerId newcomer)
        = None
   \<and> (\<exists>n. fst (validateOAuthUser demo_hash 7 ''u9'' [alice, bob, carol] newcomer) = Inr n
          \<and> password n = None \<and> isActive n \<and> authProvider n = GOOGLE)"
proof -
  have h: "hash_only_if_local {''u1'', ''u3''} [alice, bob, carol]"
    by (simp add: hash_only_if_local_def fixtures)
  have p: "findByProviderData [alice, bob, carol] (oa_provider newcomer)
             (oa_providerId newcomer) = None"
    by (simp add: findByProviderData_def fixtures)
  have e: "findByEmail [alice, bob, carol] (oa_email newcomer) = None"
    by (simp add: findByEmail_def fixtures)
  have g: "oa_provider newcomer = GOOGLE"
    by (simp add: newcomer_def)
  have s: "findByEmail [alice, bob, carol] (reg_email signup) = None"
    by (simp add: findByEmail_def fixtures)
  obtain r where r: "fst (register demo_hash demo_sign 7 ''u8'' [alice, bob, carol] signup)
                       = Inr r" and i: "uid (user r) = ''u8''"
    using register_new [OF s, of demo_hash demo_sign 7 "''u8''"]
    by (auto simp: omit_password_def UserWithoutPassword.truncate_def)
  obtain n where n: "fst (validateOAuthUser demo_hash 7 ''u9'' [alice, bob, carol] newcomer)
                       = Inr n"
    using validateOAuthUser_new [OF p e, of demo_hash 7 "''u9''"] by auto
  from password_hash_only_if_local
         [OF h, of demo_hash 7 "''u8''" newcomer demo_sign bob signup] r i
  have 3: "hash_only_if_local {''u8'', ''u1'', ''u3''}
        (snd (register demo_hash demo_sign 7 ''u8'' [alice, bob, carol] signup))"
    by simp
  note t = password_hash_only_if_local
             [OF h, of demo_hash 7 "''u9''" newcomer demo_sign bob signup]
  from t have 1: "hash_only_if_local {''u1'', ''u3''}
        (snd (validateOAuthUser demo_hash 7 ''u9'' [alice, bob, carol] newcomer))"
    by (rule conjunct1)
  from t have 2: "hash_only_if_local {''u1'', ''u3''}
        (snd (login demo_sign 7 [alice, bob, carol] bob))"
    by (rule conjunct2 [THEN conjunct1])
  from t have "findByProviderData [alice, bob, carol] (oa_provider newcomer)
                 (oa_providerId newcomer) = None \<longrightarrow>
            (\<forall>n. fst (validateOAuthUser demo_hash 7 ''u9'' [alice, bob, carol] newcomer)
                    = Inr n \<longrightarrow>
               password n = None \<and> isActive n \<and> authProvider n = oa_provider newcomer
               \<and> providerId n = Some (oa_providerId newcomer)
               \<and> snd (validateOAuthUser demo_hash 7 ''u9'' [alice, bob, carol] newcomer)
                    = [alice, bob, carol] @ [n])"
    by (rule conjunct2 [THEN conjunct2, THEN conjunct2])
  with p n have "password n = None \<and> isActive n \<and> authProvider n = oa_provider newcomer"
    by simp
  with n g have 4: "\<exists>n. fst (validateOAuthUser demo_hash 7 ''u9'' [alice, bob, carol] newcomer)
                          = Inr n
          \<and> password n = None \<and> isActive n \<and> authProvider n = GOOGLE"
    by (intro exI [of _ n]) simp
  from h 1 2 3 p 4 show ?thesis
    by (intro conjI)
qed

section \<open>Registration, login and the token\<close>

text \<open>
  Claim C7. Registration with an email that a row already has fails with the conflict
  and leaves the table as it was, whatever the password; with an email no row has it
  succeeds and inserts the row. Registering the same email again, with any password,
  then fails with the conflict.
\<close>

theorem register_conflict_on_second:
  "(\<forall>v. findByEmail rows (reg_email rd) = Some v \<longrightarrow>
       register bcrypt_hash jwt_sign now uuid rows rd
         = (Inl (ConflictException ''User with this email already exists''), rows))
 \<and> (findByEmail rows (reg_email rd) = None \<longrightarrow>
       (\<exists>r n. register bcrypt_hash jwt_sign now uuid rows rd = (Inr r, rows @ [n])
              \<and> email n = reg_email rd \<and> email (user r) = reg_email rd)
       \<and> (\<forall>rd' bcrypt_hash' jwt_sign' now' uuid'. reg_email rd' = reg_email rd \<longrightarrow>
             register bcrypt_hash' jwt_sign' now' uuid'
                 (snd (register bcrypt_hash jwt_sign now uuid rows rd)) rd'
               = (Inl (ConflictException ''User with this email already exists''),
                  snd (register bcrypt_hash jwt_sign now uuid rows rd))))"
proof (intro conjI allI impI)
  fix v
  assume "findByEmail rows (reg_email rd) = Some v"
  then show "register bcrypt_hash jwt_sign now uuid rows rd
         = (Inl (ConflictException ''User with this email already exists''), rows)"
    by (rule register_conflict)
next
  assume free: "findByEmail rows (reg_email rd) = None"
  from register_new [OF free, of bcrypt_hash jwt_sign now uuid]
  obtain n where r: "register bcrypt_hash jwt_sign now uuid rows rd
               = (Inr \<lparr> user = omit_password n,
                        access_token = jwt_sign \<lparr> jwt_email = email n, sub = uid n \<rparr> \<rparr>,
                  rows @ [n])"
    and e: "email n = reg_email rd" by (elim exE conjE)
  have "email (omit_password n) = email n"
    by (simp add: omit_password_def UserWithoutPassword.truncate_def)
  with r e show "\<exists>r n. register bcrypt_hash jwt_sign now uuid rows rd = (Inr r, rows @ [n])
              \<and> email n = reg_email rd \<and> email (user r) = reg_email rd"
    by (intro exI [of _ "\<lparr> user = omit_password n,
            access_token = jwt_sign \<lparr> jwt_email = email n, sub = uid n \<rparr> \<rparr>"] exI [of _ n])
       simp
next
  fix rd' :: RegisterDto and bcrypt_hash' jwt_sign' now' uuid'
  assume free: "findByEmail rows (reg_email rd) = None"
    and same: "reg_email rd' = reg_email rd"
  from register_new [OF free, of bcrypt_hash jwt_sign now uuid]
  obtain n where r: "register bcrypt_hash jwt_sign now uuid rows rd
               = (Inr \<lparr> user = omit_password n,
                        access_token = jwt_sign \<lparr> jwt_email = email n, sub = uid n \<rparr> \<rparr>,
                  rows @ [n])"
    and e: "email n = reg_email rd" by (elim exE conjE)
  from e same have "findByEmail (rows @ [n]) (reg_email rd') \<noteq> None"
    by (simp add: findByEmail_snoc_hit)
  then obtain w where "findByEmail (rows @ [n]) (reg_email rd') = Some w" by auto
  from register_conflict [OF this, of bcrypt_hash' jwt_sign' now' uuid'] r
  show "register bcrypt_hash' jwt_sign' now' uuid'
                 (snd (register bcrypt_hash jwt_sign now uuid rows rd)) rd'
               = (Inl (ConflictException ''User with this email already exists''),
                  snd (register bcrypt_hash jwt_sign now uuid rows rd))"
    by simp
qed

theorem register_conflict_on_second_witness:
  "findByEmail [] (reg_email signup) = None
   \<and> isl (fst (register demo_hash demo_sign 7 ''u8'' [] signup)) = False
   \<and> fst (register demo_hash demo_sign 8 ''u9''
             (snd (register demo_hash demo_sign 7 ''u8'' [] signup))
             (signup\<lparr>reg_password := ''another-password''\<rparr>))
        = Inl (ConflictException ''User with this email already exists'')"
proof -
  have free: "findByEmail [] (reg_email signup) = None"
    by (simp add: findByEmail_def)
  note t = register_conflict_on_second [of "[]" signup demo_hash demo_sign 7 "''u8''"]
  from t free have ok: "\<exists>r n. register demo_hash demo_sign 7 ''u8'' [] signup = (Inr r, [] @ [n])
              \<and> email n = reg_email signup \<and> email (user r) = reg_email signup"
    by simp
  then have 1: "isl (fst (register demo_hash demo_sign 7 ''u8'' [] signup)) = False"
    by auto
  from t free have "\<forall>rd' bcrypt_hash' jwt_sign' now' uuid'.
          reg_email rd' = reg_email signup \<longrightarrow>
             register bcrypt_hash' jwt_sign' now' uuid'
                 (snd (register demo_hash demo_sign 7 ''u8'' [] signup)) rd'
               = (Inl (ConflictException ''User with this email already exists''),
                  snd (register demo_hash demo_sign 7 ''u8'' [] signup))"
    by simp
  then have 2: "register demo_hash demo_sign 8 ''u9''
                 (snd (register demo_hash demo_sign 7 ''u8'' [] signup))
                 (signup\<lparr>reg_password := ''another-password''\<rparr>)
               = (Inl (ConflictException ''User with this email already exists''),
                  snd (register demo_hash demo_sign 7 ''u8'' [] signup))"
    by simp
  from free 1 2 show ?thesis by simp
qed

text \<open>
  Claim C8. The token returned by login is the signature of the payload whose
  \<^verbatim>\<open>sub\<close> is the id of the user and whose \<^verbatim>\<open>email\<close> is the email of the user, and
  of nothing else; so is the token returned by a successful registration, for the row it
  created.
\<close>

theorem token_payload:
  "access_token (fst (login jwt_sign now rows u))
     = jwt_sign \<lparr> jwt_email = email u, sub = uid u \<rparr>
 \<and> (\<forall>r rows'. register bcrypt_hash jwt_sign now uuid rows rd = (Inr r, rows') \<longrightarrow>
       access_token r = jwt_sign \<lparr> jwt_email = email (user r), sub = uid (user r) \<rparr>
       \<and> email (user r) = reg_email rd
       \<and> uid (user r) = uuid
       \<and> (\<exists>n\<in>set rows'. uid n = uid (user r) \<and> email n = email (user r)))"
proof (intro conjI allI impI)
  show "access_token (fst (login jwt_sign now rows u))
     = jwt_sign \<lparr> jwt_email = email u, sub = uid u \<rparr>"
    by (simp add: login_def)
next
  fix r rows'
  assume ok: "register bcrypt_hash jwt_sign now uuid rows rd = (Inr r, rows')"
  have free: "findByEmail rows (reg_email rd) = None"
  proof (cases "findByEmail rows (reg_email rd)")
    case (Some v)
    from register_conflict [OF Some, of bcrypt_hash jwt_sign now uuid] ok
    show ?thesis by simp
  qed simp
  from register_new [OF free, of bcrypt_hash jwt_sign now uuid]
  obtain n where reg: "register bcrypt_hash jwt_sign now uuid rows rd
               = (Inr \<lparr> user = omit_password n,
                        access_token = jwt_sign \<lparr> jwt_email = email n, sub = uid n \<rparr> \<rparr>,
                  rows @ [n])"
    and f: "uid n = uuid" "email n = reg_email rd" by (elim exE conjE)
  have v: "email (omit_password n) = email n" "uid (omit_password n) = uid n"
    by (simp_all add: omit_password_def UserWithoutPassword.truncate_def)
  from ok reg have r: "r = \<lparr> user = omit_password n,
                        access_token = jwt_sign \<lparr> jwt_email = email n, sub = uid n \<rparr> \<rparr>"
    and rows': "rows' = rows @ [n]" by simp_all
  show "access_token r = jwt_sign \<lparr> jwt_email = email (user r), sub = uid (user r) \<rparr>"
    by (simp add: r v)
  show "email (user r) = reg_email rd"
    by (simp add: r v f)
  show "uid (user r) = uuid"
    by (simp add: r v f)
  show "\<exists>n\<in>set rows'. uid n = uid (user r) \<and> email n = email (user r)"
    by (simp add: r v rows')
qed

theorem token_payload_witness:
  "access_token (fst (login demo_sign 7 [erin] erin)) = ''u4.erin@x.com''
   \<and> (\<exists>r rows'. register demo_hash demo_sign 7 ''u8'' [erin] signup = (Inr r, rows')
          \<and> access_token r = ''u8.a@x.com'' \<and> uid (user r) = ''u8'')"
proof -
  note t = token_payload [of demo_sign 7 "[erin]" erin demo_hash "''u8''" signup]
  from t have 1: "access_token (fst (login demo_sign 7 [erin] erin)) = ''u4.erin@x.com''"
    by (simp add: erin_def demo_sign_def)
  have free: "findByEmail [erin] (reg_email signup) = None"
    by (simp add: findByEmail_def fixtures)
  from register_new [OF free, of demo_hash demo_sign 7 "''u8''"]
  obtain r rows' where reg: "register demo_hash demo_sign 7 ''u8'' [erin] signup = (Inr r, rows')"
    by blast
  with t have "access_token r = demo_sign \<lparr> jwt_email = email (user r), sub = uid (user r) \<rparr>
       \<and> email (user r) = reg_email signup \<and> uid (user r) = ''u8''"
    by simp
  then have "access_token r = ''u8.a@x.com'' \<and> uid (user r) = ''u8''"
    by (simp add: demo_sign_def signup_def)
  with reg have 2: "\<exists>r rows'. register demo_hash demo_sign 7 ''u8'' [erin] signup = (Inr r, rows')
          \<and> access_token r = ''u8.a@x.com'' \<and> uid (user r) = ''u8''"
    by (intro exI [of _ r] exI [of _ rows']) simp
  from 1 2 show ?thesis by (rule conjI)
qed

text \<open>
  Claim C3, as amended. The view returned by registration and by login leaves out the
  password hash: the output of login is the same whatever the hash of the user is, the
  output of registration the same whatever the hasher is. It does not leave out the
  verification tokens: the view is the user with the password alone removed, so login
  returns \<^verbatim>\<open>emailVerificationToken\<close>, \<^verbatim>\<open>resetPasswordToken\<close> and
  \<^verbatim>\<open>resetPasswordExpires\<close> with the values the user has, and registration returns
  them as \<^verbatim>\<open>null\<close>, the value they have in the row it inserts.
\<close>

theorem auth_result_omits_password_only:
  "fst (login jwt_sign now rows (u\<lparr>password := p\<rparr>)) = fst (login jwt_sign now rows u)
 \<and> emailVerificationToken (user (fst (login jwt_sign now rows u))) = emailVerificationToken u
 \<and> resetPasswordToken (user (fst (login jwt_sign now rows u))) = resetPasswordToken u
 \<and> resetPasswordExpires (user (fst (login jwt_sign now rows u))) = resetPasswordExpires u
 \<and> fst (register bcrypt_hash' jwt_sign now uuid rows rd)
      = fst (register bcrypt_hash jwt_sign now uuid rows rd)
 \<and> (\<forall>r. fst (register bcrypt_hash jwt_sign now uuid rows rd) = Inr r \<longrightarrow>
       emailVerificationToken (user r) = None \<and> resetPasswordToken (user r) = None
       \<and> resetPasswordExpires (user r) = None)
 \<and> user (fst (login jwt_sign now rows u)) = UserWithoutPassword.truncate u
 \<and> (\<forall>r. fst (register bcrypt_hash jwt_sign now uuid rows rd) = Inr r \<longrightarrow>
       (\<exists>n. snd (register bcrypt_hash jwt_sign now uuid rows rd) = rows @ [n]
            \<and> user r = UserWithoutPassword.truncate n))"
proof (intro conjI allI impI)
  show "fst (login jwt_sign now rows (u\<lparr>password := p\<rparr>)) = fst (login jwt_sign now rows u)"
    by (simp add: login_def omit_password_ignores_password)
  show "emailVerificationToken (user (fst (login jwt_sign now rows u)))
          = emailVerificationToken u"
    by (simp add: login_def omit_password_fields)
  show "resetPasswordToken (user (fst (login jwt_sign now rows u))) = resetPasswordToken u"
    by (simp add: login_def omit_password_fields)
  show "resetPasswordExpires (user (fst (login jwt_sign now rows u))) = resetPasswordExpires u"
    by (simp add: login_def omit_password_fields)
  show "fst (register bcrypt_hash' jwt_sign now uuid rows rd)
      = fst (register bcrypt_hash jwt_sign now uuid rows rd)"
    by (rule register_ignores_hasher)
next
  fix r
  assume ok: "fst (register bcrypt_hash jwt_sign now uuid rows rd) = Inr r"
  have free: "findByEmail rows (reg_email rd) = None"
  proof (cases "findByEmail rows (reg_email rd)")
    case (Some v)
    from register_conflict [OF Some, of bcrypt_hash jwt_sign now uuid] ok
    show ?thesis by simp
  qed simp
  from register_new [OF free, of bcrypt_hash jwt_sign now uuid]
  obtain n where reg: "register bcrypt_hash jwt_sign now uuid rows rd
               = (Inr \<lparr> user = omit_password n,
                        access_token = jwt_sign \<lparr> jwt_email = email n, sub = uid n \<rparr> \<rparr>,
                  rows @ [n])"
    and f: "emailVerificationToken n = None" "resetPasswordToken n = None"
      "resetPasswordExpires n = None" by (elim exE conjE)
  from ok reg have "user r = omit_password n" by auto
  with f show "emailVerificationToken (user r) = None"
    "resetPasswordToken (user r) = None" "resetPasswordExpires (user r) = None"
    by (simp_all add: omit_password_fields)
next
  show "user (fst (login jwt_sign now rows u)) = UserWithoutPassword.truncate u"
    by (simp add: login_def omit_password_def)
next
  fix r
  assume ok: "fst (register bcrypt_hash jwt_sign now uuid rows rd) = Inr r"
  have free: "findByEmail rows (reg_email rd) = None"
  proof (cases "findByEmail rows (reg_email rd)")
    case (Some v)
    from register_conflict [OF Some, of bcrypt_hash jwt_sign now uuid] ok
    show ?thesis by simp
  qed simp
  from register_new [OF free, of bcrypt_hash jwt_sign now uuid]
  obtain n where reg: "register bcrypt_hash jwt_sign now uuid rows rd
               = (Inr \<lparr> user = omit_password n,
                        access_token = jwt_sign \<lparr> jwt_email = email n, sub = uid n \<rparr> \<rparr>,
                  rows @ [n])"
    by (elim exE conjE)
  from ok reg have "user r = UserWithoutPassword.truncate n"
    by (auto simp: omit_password_def)
  moreover from reg have "snd (register bcrypt_hash jwt_sign now uuid rows rd) = rows @ [n]"
    by simp
  ultimately show "\<exists>n. snd (register bcrypt_hash jwt_sign now uuid rows rd) = rows @ [n]
            \<and> user r = UserWithoutPassword.truncate n"
    by (intro exI [of _ n] conjI)
qed

theorem auth_result_omits_password_only_witness:
  "fst (login demo_sign 7 [erin] (erin\<lparr>password := Some ''#other''\<rparr>))
     = fst (login demo_sign 7 [erin] erin)
   \<and> emailVerificationToken (user (fst (login demo_sign 7 [erin] erin))) = Some ''verify-me''
   \<and> name (user (fst (login demo_sign 7 [erin] erin))) = ''Erin''
   \<and> isActive (user (fst (login demo_sign 7 [erin] erin)))
   \<and> (\<exists>r. fst (register demo_hash demo_sign 7 ''u8'' [erin] signup) = Inr r
          \<and> emailVerificationToken (user r) = None \<and> resetPasswordToken (user r) = None
          \<and> (\<exists>n. snd (register demo_hash demo_sign 7 ''u8'' [erin] signup) = [erin] @ [n]
                 \<and> user r = UserWithoutPassword.truncate n))"
proof -
  note t = auth_result_omits_password_only
             [where jwt_sign = demo_sign and now = 7 and rows = "[erin]" and u = erin
                and p = "Some ''#other''" and bcrypt_hash = demo_hash
                and bcrypt_hash' = demo_hash and uuid = "''u8''" and rd = signup]
  from t have 1: "fst (login demo_sign 7 [erin] (erin\<lparr>password := Some ''#other''\<rparr>))
     = fst (login demo_sign 7 [erin] erin)"
    by (rule conjunct1)
  from t have "emailVerificationToken (user (fst (login demo_sign 7 [erin] erin)))
                 = emailVerificationToken erin"
    by (rule conjunct2 [THEN conjunct1])
  then have 2: "emailVerificationToken (user (fst (login demo_sign 7 [erin] erin)))
                  = Some ''verify-me''"
    by (simp add: erin_def)
  from t have v: "user (fst (login demo_sign 7 [erin] erin)) = UserWithoutPassword.truncate erin"
    by (elim conjE)
  have 3: "name (user (fst (login demo_sign 7 [erin] erin))) = ''Erin''"
    unfolding v by (simp add: UserWithoutPassword.truncate_def erin_def)
  have 4: "isActive (user (fst (login demo_sign 7 [erin] erin)))"
    unfolding v by (simp add: UserWithoutPassword.truncate_def erin_def)
  have free: "findByEmail [erin] (reg_email signup) = None"
    by (simp add: findByEmail_def fixtures)
  from register_new [OF free, of demo_hash demo_sign 7 "''u8''"]
  obtain r where reg: "fst (register demo_hash demo_sign 7 ''u8'' [erin] signup) = Inr r"
    by force
  from t have "\<forall>r. fst (register demo_hash demo_sign 7 ''u8'' [erin] signup) = Inr r \<longrightarrow>
       emailVerificationToken (user r) = None \<and> resetPasswordToken (user r) = None
       \<and> resetPasswordExpires (user r) = None"
    by (elim conjE)
  with reg have 5: "emailVerificationToken (user r) = None" "resetPasswordToken (user r) = None"
    by blast+
  from t have "\<forall>r. fst (register demo_hash demo_sign 7 ''u8'' [erin] signup) = Inr r \<longrightarrow>
       (\<exists>n. snd (register demo_hash demo_sign 7 ''u8'' [erin] signup) = [erin] @ [n]
            \<and> user r = UserWithoutPassword.truncate n)"
    by (elim conjE)
  with reg have 6: "\<exists>n. snd (register demo_hash demo_sign 7 ''u8'' [erin] signup) = [erin] @ [n]
            \<and> user r = UserWithoutPassword.truncate n"
    by blast
  from reg 5 6 have 7: "\<exists>r. fst (register demo_hash demo_sign 7 ''u8'' [erin] signup) = Inr r
          \<and> emailVerificationToken (user r) = None \<and> resetPasswordToken (user r) = None
          \<and> (\<exists>n. snd (register demo_hash demo_sign 7 ''u8'' [erin] signup) = [erin] @ [n]
                 \<and> user r = UserWithoutPassword.truncate n)"
    by (intro exI [of _ r] conjI)
  from 1 2 3 4 7 show ?thesis by (intro conjI)
qed

text \<open>
  Claim C3 as first stated (the view excludes the verification tokens) fails at login:
  the rest pattern removes \<^verbatim>\<open>password\<close> alone, and the tokens of \<open>erin\<close> are in the
  view returned.
\<close>

theorem login_view_carries_tokens_counterexample:
  "emailVerificationToken (user (fst (login demo_sign 7 [erin] erin))) = Some ''verify-me''
   \<and> resetPasswordToken (user (fst (login demo_sign 7 [erin] erin))) = Some ''reset-me''
   \<and> resetPasswordExpires (user (fst (login demo_sign 7 [erin] erin))) = Some 99"
  by (simp add: login_def omit_password_def UserWithoutPassword.truncate_def erin_def)

section \<open>Profile retrieval and update\<close>

text \<open>
  Claim C9. Profile retrieval fails with "User not found" when no row has the id.
  Otherwise it returns the seven selected columns of a row with that id; the result
  does not change when the password hashes and the token columns of the table change.
\<close>

theorem getProfile_not_found_or_stripped:
  "((\<forall>u\<in>set rows. uid u \<noteq> i) \<longrightarrow>
       getProfile rows i = Inl (NotFoundException ''User not found''))
 \<and> ((\<exists>u\<in>set rows. uid u = i) \<longrightarrow>
       (\<exists>u\<in>set rows. uid u = i
          \<and> getProfile rows i
              = Inr \<lparr> uid = uid u, email = email u, name = name u,
                      profilePicture = profilePicture u, authProvider = authProvider u,
                      isActive = isActive u, createdAt = createdAt u \<rparr>))
 \<and> getProfile
      (map (\<lambda>u. u\<lparr> password := p u, emailVerificationToken := t u,
                    resetPasswordToken := q u, resetPasswordExpires := x u \<rparr>) rows) i
      = getProfile rows i"
proof (intro conjI impI)
  assume "\<forall>u\<in>set rows. uid u \<noteq> i"
  then have "find (\<lambda>u. uid u = i) rows = None"
    by (simp add: find_None_iff)
  then show "getProfile rows i = Inl (NotFoundException ''User not found'')"
    by (simp add: getProfile_def findById_def)
next
  assume "\<exists>u\<in>set rows. uid u = i"
  then have "find (\<lambda>u. uid u = i) rows \<noteq> None"
    by (auto simp: find_None_iff)
  then obtain u where f: "find (\<lambda>u. uid u = i) rows = Some u" by auto
  from find_Some_mem [OF f] have m: "u \<in> set rows" and k: "uid u = i" by simp_all
  from f have "getProfile rows i
                = Inr \<lparr> uid = uid u, email = email u, name = name u,
                        profilePicture = profilePicture u, authProvider = authProvider u,
                        isActive = isActive u, createdAt = createdAt u \<rparr>"
    by (simp add: getProfile_def findById_def UserSelected.truncate_def)
  with m k show "\<exists>u\<in>set rows. uid u = i
          \<and> getProfile rows i
              = Inr \<lparr> uid = uid u, email = email u, name = name u,
                      profilePicture = profilePicture u, authProvider = authProvider u,
                      isActive = isActive u, createdAt = createdAt u \<rparr>"
    by (intro bexI [of _ u]) simp_all
next
  let ?f = "\<lambda>u. u\<lparr> password := p u, emailVerificationToken := t u,
                    resetPasswordToken := q u, resetPasswordExpires := x u \<rparr>"
  have "find (\<lambda>u. uid u = i) (map ?f rows) = map_option ?f (find (\<lambda>u. uid u = i) rows)"
    by (rule find_map_same_key) simp
  then show "getProfile (map ?f rows) i = getProfile rows i"
    by (cases "find (\<lambda>u. uid u = i) rows")
       (simp_all add: getProfile_def findById_def UserSelected.truncate_def)
qed

theorem getProfile_not_found_or_stripped_witness:
  "uid alice \<noteq> ''u7'' \<and> uid erin \<noteq> ''u7''
   \<and> getProfile [alice, erin] ''u7'' = Inl (NotFoundException ''User not found'')
   \<and> (\<exists>u\<in>set [alice, erin]. uid u = ''u4'')
   \<and> getProfile [alice, erin] ''u4''
        = Inr \<lparr> uid = ''u4'', email = ''erin@x.com'', name = ''Erin'', profilePicture = None,
                authProvider = LOCAL, isActive = True, createdAt = 4 \<rparr>"
proof -
  have a: "\<forall>u\<in>set [alice, erin]. uid u \<noteq> ''u7''"
    by (simp add: fixtures)
  have b: "\<exists>u\<in>set [alice, erin]. uid u = ''u4''"
    by (simp add: fixtures)
  from getProfile_not_found_or_stripped [of "[alice, erin]" "''u7''", THEN conjunct1] a
  have 1: "getProfile [alice, erin] ''u7'' = Inl (NotFoundException ''User not found'')"
    by (rule mp)
  from getProfile_not_found_or_stripped
         [of "[alice, erin]" "''u4''", THEN conjunct2, THEN conjunct1] b
  have "\<exists>u\<in>set [alice, erin]. uid u = ''u4''
          \<and> getProfile [alice, erin] ''u4''
              = Inr \<lparr> uid = uid u, email = email u, name = name u,
                      profilePicture = profilePicture u, authProvider = authProvider u,
                      isActive = isActive u, createdAt = createdAt u \<rparr>"
    by (rule mp)
  then have 2: "getProfile [alice, erin] ''u4''
        = Inr \<lparr> uid = ''u4'', email = ''erin@x.com'', name = ''Erin'', profilePicture = None,
                authProvider = LOCAL, isActive = True, createdAt = 4 \<rparr>"
    by (auto simp: fixtures)
  have a': "uid alice \<noteq> ''u7''" "uid erin \<noteq> ''u7''"
    by (simp_all add: fixtures)
  from a' 1 b 2 show ?thesis by (intro conjI)
qed




end
